theory Spec2Isabelle
  imports Main "HOL-Library.Char_ord" "HOL-Library.List_Lexorder"
begin

section \<open>The webhook dispatcher of \<^verbatim>\<open>webhooks.py\<close>\<close>

text \<open>
  The repository is one Flask handler, \<^verbatim>\<open>index\<close>, which validates a webhook request
  and runs the executable hook scripts that match it. The handler is embedded as a
  function from the request, the configuration and the world outside the handler (the
  libraries and the operating system it calls) to the HTTP response and the list of
  effects it performs, in the order it performs them.

  Text is modelled by \<^typ>\<open>string\<close>. The source is Python 2 (it passes \<^verbatim>\<open>str(secret)\<close> to
  \<^verbatim>\<open>hmac.new\<close>); header and payload text is taken to be ASCII, where Python 2's
  \<^verbatim>\<open>str\<close> and \<^verbatim>\<open>unicode\<close> agree and \<^verbatim>\<open>str(x)\<close> is the identity on text.
\<close>

subsection \<open>Python values\<close>

text \<open>The exceptions the handler can meet. \<^verbatim>\<open>RequestException\<close> is what the
  \<^verbatim>\<open>requests\<close> library raises when the allowlist cannot be fetched.\<close>

datatype exn =
  AttributeError | ValueError | KeyError | TypeError | IndexError | OSError
  | RequestException

text \<open>What \<^verbatim>\<open>json.loads\<close> returns. An object is the list of its members; as in a
  Python dict, looking a key up finds one value.\<close>

datatype json =
  JNull | JBool bool | JInt int | JFloat string | JStr string
  | JArr "json list" | JObj "(string \<times> json) list"

text \<open>\<^verbatim>\<open>obj[key]\<close> with a string key: \<^verbatim>\<open>KeyError\<close> on a dict without the key,
  \<^verbatim>\<open>TypeError\<close> on every other JSON value.\<close>

fun getitem :: "json \<Rightarrow> string \<Rightarrow> exn + json" where
  "getitem (JObj members) key =
     (case map_of members key of None \<Rightarrow> Inl KeyError | Some v \<Rightarrow> Inr v)"
| "getitem _ key = Inl TypeError"

text \<open>\<^verbatim>\<open>s.split(sep)\<close> for a one-character separator: one part more than there are
  separators in \<open>s\<close>.\<close>

fun split_chr :: "char \<Rightarrow> string \<Rightarrow> string list" where
  "split_chr sep [] = [[]]"
| "split_chr sep (c # cs) =
     (if c = sep then [] # split_chr sep cs
      else (case split_chr sep cs of
              [] \<Rightarrow> [[c]]
            | part # parts \<Rightarrow> (c # part) # parts))"

text \<open>\<^verbatim>\<open>value.split(sep)\<close> on a JSON value: only text has the method.\<close>

fun split_method :: "json \<Rightarrow> char \<Rightarrow> exn + string list" where
  "split_method (JStr s) sep = Inr (split_chr sep s)"
| "split_method _ sep = Inl AttributeError"

text \<open>\<^verbatim>\<open>xs[i]\<close> for an index \<open>i \<ge> 0\<close>.\<close>

definition subscript :: "'a list \<Rightarrow> nat \<Rightarrow> exn + 'a" where
  "subscript xs i = (if i < length xs then Inr (xs ! i) else Inl IndexError)"

text \<open>\<^verbatim>\<open>os.path.join(a, b)\<close> and \<^verbatim>\<open>os.path.basename(p)\<close> of \<^verbatim>\<open>posixpath\<close>.\<close>

definition join :: "string \<Rightarrow> string \<Rightarrow> string" where
  "join a b =
     (if b \<noteq> [] \<and> hd b = CHR ''/'' then b
      else if a = [] \<or> last a = CHR ''/'' then a @ b
      else a @ CHR ''/'' # b)"

definition basename :: "string \<Rightarrow> string" where
  "basename p = rev (takeWhile (\<lambda>c. c \<noteq> CHR ''/'') (rev p))"

text \<open>\<^verbatim>\<open>hmac.compare_digest(a, b)\<close>: whether the two texts are equal.\<close>

definition compare_digest :: "string \<Rightarrow> string \<Rightarrow> bool" where
  "compare_digest a b = (a = b)"

subsection \<open>Request, configuration, world\<close>

record request =
  req_method :: string
  remote_addr :: string
  req_headers :: "string \<rightharpoonup> string"
  req_data :: string

text \<open>The three configuration keys the handler reads; \<open>None\<close> is a key that is not set.\<close>

record config =
  GITHUB_IPS_ONLY :: "bool option"
  ENFORCE_SECRET :: "string option"
  RETURN_SCRIPTS_INFO :: "bool option"

text \<open>\<^verbatim>\<open>application.config.get(key, default)\<close>.\<close>

definition config_get :: "'a option \<Rightarrow> 'a \<Rightarrow> 'a" where
  "config_get entry dflt = (case entry of None \<Rightarrow> dflt | Some v \<Rightarrow> v)"

text \<open>What a finished child process leaves: \<^verbatim>\<open>proc.returncode\<close> and the two streams of
  \<^verbatim>\<open>proc.communicate()\<close>.\<close>

record proc =
  returncode :: int
  stdout :: string
  stderr :: string

text \<open>
  The world outside the handler: every library and system call of \<^verbatim>\<open>index\<close>, as
  the value it returns or the exception it raises. \<open>'a\<close> is the library's type of IP
  addresses and \<open>'n\<close> its type of networks.
  \<^item> \<open>app_path\<close>: \<^verbatim>\<open>normpath(abspath(dirname(__file__)))\<close>;
  \<^item> \<open>ip_address\<close>, \<open>ip_network\<close>: the parsers of \<^verbatim>\<open>ipaddress\<close>; \<open>ip_in_network a n\<close> is
    \<^verbatim>\<open>a in n\<close>;
  \<^item> \<open>get_whitelist\<close>: \<^verbatim>\<open>requests.get('https://api.github.com/meta').json()['hooks']\<close>;
  \<^item> \<open>hmac_sha1_hexdigest key msg\<close>: \<^verbatim>\<open>hmac.new(key, msg=msg, digestmod=sha1).hexdigest()\<close>;
  \<^item> \<open>loads\<close>, \<open>dumps\<close>: \<^verbatim>\<open>json.loads\<close> and \<^verbatim>\<open>json.dumps\<close>, the latter writing the
    members of an object in the order of the list;
  \<^item> \<open>py_format\<close>: what \<^verbatim>\<open>'{}'.format(v)\<close> gives for a JSON value that is not text;
  \<^item> \<open>isfile\<close>, \<open>access_X_OK\<close>: \<^verbatim>\<open>os.path.isfile(p)\<close> and \<^verbatim>\<open>os.access(p, X_OK)\<close>;
  \<^item> \<open>mkstemp\<close>: the path \<^verbatim>\<open>tempfile.mkstemp()\<close> creates;
  \<^item> \<open>popen k argv\<close>: \<^verbatim>\<open>Popen(argv, ...)\<close> followed by \<^verbatim>\<open>communicate()\<close> for the
    child launched after \<open>k\<close> earlier ones of the same request: the finished process,
    or the exception of a child that could not be started.
\<close>

record ('a, 'n) env =
  app_path :: string
  ip_address :: "string \<Rightarrow> exn + 'a"
  get_whitelist :: "exn + string list"
  ip_network :: "string \<Rightarrow> exn + 'n"
  ip_in_network :: "'a \<Rightarrow> 'n \<Rightarrow> bool"
  hmac_sha1_hexdigest :: "string \<Rightarrow> string \<Rightarrow> string"
  loads :: "string \<Rightarrow> exn + json"
  dumps :: "json \<Rightarrow> string"
  py_format :: "json \<Rightarrow> string"
  isfile :: "string \<Rightarrow> bool"
  access_X_OK :: "string \<Rightarrow> bool"
  mkstemp :: string
  popen :: "nat \<Rightarrow> string list \<Rightarrow> exn + proc"

text \<open>How a request ends: \<^verbatim>\<open>abort(status)\<close>, a returned body (status 200), or an
  exception nothing catches (Flask answers it with status 500).\<close>

datatype response = Abort nat | Return string | Raise exn

text \<open>What the handler does to the world, in order: the log records by level
  (\<open>LogException\<close> is \<^verbatim>\<open>logging.exception\<close>, an error record with the exception and its
  traceback; \<open>LogHookFailed s rc err\<close> is the error record
  \<^verbatim>\<open>'{} : {} \n{}'.format(s, rc, err)\<close>), the temporary file, the children.\<close>

datatype effect =
  LogError string | LogInfo string | LogWarning string
  | LogException string exn
  | LogHookFailed string int string
  | Mkstemp string
  | WriteFile string string
  | Popen "string list"
  | RemoveFile string

subsection \<open>The stages of \<^verbatim>\<open>index\<close>\<close>

text \<open>Lines 82-93, ``Allow Github IPs only''. The \<^verbatim>\<open>for ... else\<close> loop: \<open>True\<close> on
  \<^verbatim>\<open>break\<close>, \<open>False\<close> when the list is exhausted.\<close>

fun in_whitelist :: "('a, 'n) env \<Rightarrow> 'a \<Rightarrow> string list \<Rightarrow> exn + bool" where
  "in_whitelist env src_ip [] = Inr False"
| "in_whitelist env src_ip (valid_ip # rest) =
     (case ip_network env valid_ip of
        Inl e \<Rightarrow> Inl e
      | Inr net \<Rightarrow>
          if ip_in_network env src_ip net then Inr True
          else in_whitelist env src_ip rest)"

definition allow_github_ips ::
  "('a, 'n) env \<Rightarrow> config \<Rightarrow> request \<Rightarrow> response + unit" where
  "allow_github_ips env cfg req =
     (if config_get (GITHUB_IPS_ONLY cfg) True then
        (case ip_address env (remote_addr req) of
           Inl e \<Rightarrow> Inl (Raise e)
         | Inr src_ip \<Rightarrow>
            (case get_whitelist env of
               Inl e \<Rightarrow> Inl (Raise e)
             | Inr whitelist \<Rightarrow>
                (case in_whitelist env src_ip whitelist of
                   Inl e \<Rightarrow> Inl (Raise e)
                 | Inr found \<Rightarrow> if found then Inr () else Inl (Abort 403))))
      else Inr ())"

text \<open>Lines 95-106, ``Enforce secret''. The header may be absent (\<^verbatim>\<open>None.split\<close>), and
  the unpacking into two names needs exactly two parts.\<close>

definition enforce_secret ::
  "('a, 'n) env \<Rightarrow> config \<Rightarrow> request \<Rightarrow> response + unit" where
  "enforce_secret env cfg req =
     (let secret = config_get (ENFORCE_SECRET cfg) [] in
      if secret \<noteq> [] then
        (case req_headers req ''X-Hub-Signature'' of
           None \<Rightarrow> Inl (Raise AttributeError)
         | Some header \<Rightarrow>
            (case split_chr CHR ''='' header of
               [sha_name, signature] \<Rightarrow>
                 if sha_name \<noteq> ''sha1'' then Inl (Abort 501)
                 else if \<not> compare_digest
                           (hmac_sha1_hexdigest env secret (req_data req)) signature
                 then Inl (Abort 403)
                 else Inr ()
             | _ \<Rightarrow> Inl (Raise ValueError)))
      else Inr ())"

text \<open>Lines 109-111: the event of the headers.\<close>

definition get_event :: "request \<Rightarrow> string" where
  "get_event req =
     (case req_headers req ''X-GitHub-Event'' of
        Some event \<Rightarrow> event
      | None \<Rightarrow>
         (case req_headers req ''X-Gitlab-Event'' of
            Some event \<Rightarrow> event
          | None \<Rightarrow> []))"

text \<open>Lines 112-113: the record logged for a ping; nothing else depends on it.\<close>

definition implement_ping :: "string \<Rightarrow> effect list" where
  "implement_ping event = (if event = ''ping'' then [LogInfo ''just a ping''] else [])"

text \<open>Line 121, \<^verbatim>\<open>payload['ref'].split('/')[2]\<close>, for the value \<open>ref\<close> of
  \<^verbatim>\<open>payload['ref']\<close>.\<close>

definition derive_branch :: "json \<Rightarrow> exn + string" where
  "derive_branch ref =
     (case split_method ref CHR ''/'' of
        Inl e \<Rightarrow> Inl e
      | Inr parts \<Rightarrow> subscript parts 2)"

text \<open>Lines 116-123, the body of the \<^verbatim>\<open>try\<close>: the payload and \<^verbatim>\<open>meta\<close>, or the
  first exception. In \<^verbatim>\<open>event or payload['object_kind']\<close> the payload is read only when
  the event of the headers is empty.\<close>

record meta =
  meta_name :: json
  meta_branch :: string
  meta_event :: json

definition gather_data ::
  "('a, 'n) env \<Rightarrow> request \<Rightarrow> string \<Rightarrow> exn + (json \<times> meta)" where
  "gather_data env req event =
     (case loads env (req_data req) of Inl e \<Rightarrow> Inl e | Inr payload \<Rightarrow>
     (case getitem payload ''repository'' of Inl e \<Rightarrow> Inl e | Inr repository \<Rightarrow>
     (case getitem repository ''name'' of Inl e \<Rightarrow> Inl e | Inr name \<Rightarrow>
     (case getitem payload ''ref'' of Inl e \<Rightarrow> Inl e | Inr ref \<Rightarrow>
     (case derive_branch ref of Inl e \<Rightarrow> Inl e | Inr branch \<Rightarrow>
     (case (if event \<noteq> [] then Inr (JStr event)
            else getitem payload ''object_kind'') of Inl e \<Rightarrow> Inl e | Inr ev \<Rightarrow>
        Inr (payload,
             \<lparr>meta_name = name, meta_branch = branch, meta_event = ev\<rparr>)))))))"

text \<open>Lines 129-134. \<^verbatim>\<open>'{event}'.format(**meta)\<close> writes text as it is and any other
  value as Python prints it.\<close>

definition format_field :: "('a, 'n) env \<Rightarrow> json \<Rightarrow> string" where
  "format_field env v = (case v of JStr s \<Rightarrow> s | _ \<Rightarrow> py_format env v)"

definition candidate_names :: "('a, 'n) env \<Rightarrow> meta \<Rightarrow> string list" where
  "candidate_names env m =
     [format_field env (meta_event m) @ ''-'' @ format_field env (meta_name m)
        @ ''-'' @ meta_branch m,
      format_field env (meta_event m) @ ''-'' @ format_field env (meta_name m),
      format_field env (meta_event m),
      ''all'']"

definition candidate_scripts :: "('a, 'n) env \<Rightarrow> string \<Rightarrow> meta \<Rightarrow> string list" where
  "candidate_scripts env hooks m = map (join hooks) (candidate_names env m)"

text \<open>Line 137, ``Check permissions''.\<close>

definition runnable :: "('a, 'n) env \<Rightarrow> string list \<Rightarrow> string list" where
  "runnable env candidates = filter (\<lambda>s. isfile env s \<and> access_X_OK env s) candidates"

text \<open>\<^verbatim>\<open>ran[key] = value\<close> on a dict kept as the list of its items.\<close>

fun setitem :: "(string \<times> 'v) list \<Rightarrow> string \<Rightarrow> 'v \<Rightarrow> (string \<times> 'v) list" where
  "setitem [] key v = [(key, v)]"
| "setitem ((k, w) # items) key v =
     (if k = key then (k, v) # items else (k, w) # setitem items key v)"

text \<open>Lines 149-167, ``Run scripts'': the loop over the scripts left to run, \<open>k\<close>
  children having been launched before. An exception of \<^verbatim>\<open>Popen\<close> leaves the loop
  and the handler.\<close>

fun run_scripts ::
  "('a, 'n) env \<Rightarrow> string \<Rightarrow> string \<Rightarrow> nat \<Rightarrow> string list \<Rightarrow> (string \<times> proc) list
     \<Rightarrow> (exn + (string \<times> proc) list) \<times> effect list" where
  "run_scripts env tmpfile event k [] ran' = (Inr ran', [])"
| "run_scripts env tmpfile event k (s # rest) ran' =
     (case popen env k [s, tmpfile, event] of
        Inl e \<Rightarrow> (Inl e, [Popen [s, tmpfile, event]])
      | Inr p \<Rightarrow>
          (case run_scripts env tmpfile event (Suc k) rest (setitem ran' (basename s) p) of
             (result, effects) \<Rightarrow>
               (result,
                Popen [s, tmpfile, event]
                # (if returncode p \<noteq> 0 then [LogHookFailed s (returncode p) (stderr p)]
                   else [])
                @ effects)))"

text \<open>Line 176, \<^verbatim>\<open>dumps(ran, sort_keys=True)\<close>: the members of the mapping ordered by
  basename, each result with its three keys in order.\<close>

definition proc_json :: "proc \<Rightarrow> json" where
  "proc_json p =
     JObj [(''returncode'', JInt (returncode p)),
           (''stderr'', JStr (stderr p)),
           (''stdout'', JStr (stdout p))]"

definition dumps_sorted :: "('a, 'n) env \<Rightarrow> (string \<times> proc) list \<Rightarrow> string" where
  "dumps_sorted env ran' =
     dumps env (JObj (sort_key fst (map (\<lambda>(b, p). (b, proc_json p)) ran')))"

text \<open>Lines 128-178: from the candidates to the response.\<close>

definition run_hooks ::
  "('a, 'n) env \<Rightarrow> config \<Rightarrow> json \<Rightarrow> meta \<Rightarrow> string \<Rightarrow> response \<times> effect list" where
  "run_hooks env cfg payload m event =
     (let hooks = join (app_path env) ''hooks'';
          candidates = candidate_scripts env hooks m;
          scripts = runnable env candidates
      in if scripts = [] then
           (Return [], [LogWarning (''nothing found for '' @ hd candidates)])
         else
           (let tmpfile = mkstemp env;
                saved = [Mkstemp tmpfile, WriteFile tmpfile (dumps env payload)]
            in case run_scripts env tmpfile event 0 scripts [] of
                 (Inl e, effects) \<Rightarrow> (Raise e, saved @ effects)
               | (Inr ran', effects) \<Rightarrow>
                   if \<not> config_get (RETURN_SCRIPTS_INFO cfg) False then
                     (Return [], saved @ effects @ [RemoveFile tmpfile])
                   else
                     (let output = dumps_sorted env ran'
                      in (Return output,
                          saved @ effects @ [RemoveFile tmpfile, LogInfo output]))))"

text \<open>Lines 116-178 for a given event: the \<^verbatim>\<open>try\<close> with its handler, then the hooks.\<close>

definition process_payload ::
  "('a, 'n) env \<Rightarrow> config \<Rightarrow> request \<Rightarrow> string \<Rightarrow> response \<times> effect list" where
  "process_payload env cfg req event =
     (case gather_data env req event of
        Inl e \<Rightarrow> (Abort 400, [LogException ''invalid payload'' e])
      | Inr (payload, m) \<Rightarrow> run_hooks env cfg payload m event)"

text \<open>Lines 108-178: what follows validation.\<close>

definition handle_event ::
  "('a, 'n) env \<Rightarrow> config \<Rightarrow> request \<Rightarrow> response \<times> effect list" where
  "handle_event env cfg req =
     (let event = get_event req in
      case process_payload env cfg req event of
        (resp, effects) \<Rightarrow> (resp, implement_ping event @ effects))"

text \<open>Lines 95-178: the signature check and what follows it.\<close>

definition check_signature ::
  "('a, 'n) env \<Rightarrow> config \<Rightarrow> request \<Rightarrow> response \<times> effect list" where
  "check_signature env cfg req =
     (case enforce_secret env cfg req of
        Inl resp \<Rightarrow> (resp, [])
      | Inr _ \<Rightarrow> handle_event env cfg req)"

text \<open>The handler, lines 69-178.\<close>

definition index ::
  "('a, 'n) env \<Rightarrow> config \<Rightarrow> request \<Rightarrow> response \<times> effect list" where
  "index env cfg req =
     (if req_method req \<noteq> ''POST'' then
        (Abort 501, [LogError ''Someone is performing GET over /''])
      else
        (case allow_github_ips env cfg req of
           Inl resp \<Rightarrow> (resp, [])
         | Inr _ \<Rightarrow> check_signature env cfg req))"

subsection \<open>Reading the effects\<close>

text \<open>The effects on the file system and the children, without the log records.\<close>

fun is_log :: "effect \<Rightarrow> bool" where
  "is_log (LogError _) = True"
| "is_log (LogInfo _) = True"
| "is_log (LogWarning _) = True"
| "is_log (LogException _ _) = True"
| "is_log (LogHookFailed _ _ _) = True"
| "is_log _ = False"

definition system_effects :: "effect list \<Rightarrow> effect list" where
  "system_effects effects = filter (\<lambda>e. \<not> is_log e) effects"

text \<open>The argument vectors of the children launched, in order.\<close>

fun launches :: "effect list \<Rightarrow> string list list" where
  "launches [] = []"
| "launches (Popen argv # effects) = argv # launches effects"
| "launches (_ # effects) = launches effects"

subsection \<open>A sample world\<close>

text \<open>One world, configuration and request at which the handler is evaluated below: an
  application in \<^verbatim>\<open>/srv/webhooks\<close> with three hooks and a file that is not executable
  in its hooks directory, two allowlisted networks, and
  the push of a branch \<^verbatim>\<open>main\<close> of a repository \<^verbatim>\<open>repo\<close>. Addresses are their numeric
  values and a network is its first address with its prefix length; the digests are the
  HMAC-SHA1 values of the sample bodies under the key \<^verbatim>\<open>s3cret\<close>.\<close>

definition push_body :: string where
  \<open>push_body = ''{"repository": {"name": "repo"}, "ref": "refs/heads/main"}''\<close>

definition gitlab_body :: string where
  \<open>gitlab_body =
     ''{"object_kind": "push", "repository": {"name": "repo"}, "ref": "refs/heads/main"}''\<close>

definition nested_body :: string where
  \<open>nested_body = ''{"repository": {"name": "x/all"}, "ref": "refs/heads/main"}''\<close>

definition short_ref_body :: string where
  \<open>short_ref_body = ''{"repository": {"name": "repo"}, "ref": "main"}''\<close>

definition sample_payload :: json where
  "sample_payload =
     JObj [(''repository'', JObj [(''name'', JStr ''repo'')]),
           (''ref'', JStr ''refs/heads/main'')]"

definition sample_meta :: meta where
  "sample_meta =
     \<lparr>meta_name = JStr ''repo'', meta_branch = ''main'', meta_event = JStr ''push''\<rparr>"

definition sample_loads :: "string \<Rightarrow> exn + json" where
  "sample_loads body =
     (if body = push_body then Inr sample_payload
      else if body = gitlab_body then
        Inr (JObj [(''object_kind'', JStr ''push''),
                   (''repository'', JObj [(''name'', JStr ''repo'')]),
                   (''ref'', JStr ''refs/heads/main'')])
      else if body = nested_body then
        Inr (JObj [(''repository'', JObj [(''name'', JStr ''x/all'')]),
                   (''ref'', JStr ''refs/heads/main'')])
      else if body = short_ref_body then
        Inr (JObj [(''repository'', JObj [(''name'', JStr ''repo'')]),
                   (''ref'', JStr ''main'')])
      else Inl ValueError)"

definition sample_hmac :: "string \<Rightarrow> string \<Rightarrow> string" where
  "sample_hmac key msg =
     (if key = ''s3cret'' \<and> msg = push_body then
        ''c417801017aa9172e8f2d4d870785253074e456b''
      else if key = ''s3cret'' \<and> msg = gitlab_body then
        ''ac53407f637f4318dc2262dd7243b3b1a0ef671c''
      else if key = ''s3cret'' \<and> msg = nested_body then
        ''28588d2ef8ff6a4991a91a6b84687ce29f3eb4d8''
      else if key = ''s3cret'' \<and> msg = short_ref_body then
        ''0ae4cbe41d59051090012ea3ec87bcba8e1d5940''
      else ''0000000000000000000000000000000000000000'')"

text \<open>A serialiser for the sample world: JSON text for values whose strings need no
  escaping.\<close>

function dec_nat :: "nat \<Rightarrow> string" where
  "dec_nat n =
     (if n < 10 then [''0123456789'' ! n]
      else dec_nat (n div 10) @ [''0123456789'' ! (n mod 10)])"
  by pat_completeness auto
termination
  by (relation "measure id") auto

definition dec_int :: "int \<Rightarrow> string" where
  "dec_int i = (if i < 0 then CHR ''-'' # dec_nat (nat (- i)) else dec_nat (nat i))"

fun commas :: "string list \<Rightarrow> string" where
  "commas [] = []"
| "commas [x] = x"
| "commas (x # y # zs) = x @ '', '' @ commas (y # zs)"

definition quoted :: "string \<Rightarrow> string" where
  "quoted s = CHR 0x22 # s @ [CHR 0x22]"

primrec sample_dumps :: "json \<Rightarrow> string" where
  "sample_dumps JNull = ''null''"
| "sample_dumps (JBool b) = (if b then ''true'' else ''false'')"
| "sample_dumps (JInt i) = dec_int i"
| "sample_dumps (JFloat literal) = literal"
| "sample_dumps (JStr s) = quoted s"
| "sample_dumps (JArr items) = ''['' @ commas (map sample_dumps items) @ '']''"
| "sample_dumps (JObj members) =
     ''{'' @ commas (map (\<lambda>(k, v). quoted k @ '': '' @ v)
                      (map (map_prod id sample_dumps) members)) @ ''}''"

definition sample_format :: "json \<Rightarrow> string" where
  "sample_format v =
     (case v of
        JNull \<Rightarrow> ''None''
      | JBool b \<Rightarrow> (if b then ''True'' else ''False'')
      | _ \<Rightarrow> sample_dumps v)"

definition sample_files :: "string list" where
  "sample_files =
     [''/srv/webhooks/hooks/push-repo'', ''/srv/webhooks/hooks/all'',
      ''/srv/webhooks/hooks/push-x/all'', ''/srv/webhooks/hooks/README'', ''/bin/sh'']"

definition sample_popen :: "nat \<Rightarrow> string list \<Rightarrow> exn + proc" where
  "sample_popen k argv =
     (if take 1 argv = [''/srv/webhooks/hooks/push-repo''] then
        Inr \<lparr>returncode = 0, stdout = ''deployed'', stderr = []\<rparr>
      else if take 1 argv = [''/srv/webhooks/hooks/all''] then
        Inr \<lparr>returncode = 1, stdout = [], stderr = ''boom''\<rparr>
      else if take 1 argv = [''/srv/webhooks/hooks/push-x/all''] then
        Inr \<lparr>returncode = 0, stdout = ''nested'', stderr = []\<rparr>
      else if take 1 argv = [''/bin/sh''] then
        Inr \<lparr>returncode = 2, stdout = [], stderr = ''syntax error''\<rparr>
      else Inl OSError)"

definition sample_env :: "(int, int \<times> nat) env" where
  "sample_env =
     \<lparr>app_path = ''/srv/webhooks'',
      ip_address = (\<lambda>s. if s = ''192.30.252.10'' then Inr 3223256074
                         else if s = ''10.0.0.1'' then Inr 167772161
                         else Inl ValueError),
      get_whitelist = Inr [''192.30.252.0/22'', ''185.199.108.0/22''],
      ip_network = (\<lambda>s. if s = ''192.30.252.0/22'' then Inr (3223256064, 22)
                         else if s = ''185.199.108.0/22'' then Inr (3116854272, 22)
                         else Inl ValueError),
      ip_in_network = (\<lambda>a (first, len). first \<le> a \<and> a < first + 2 ^ (32 - len)),
      hmac_sha1_hexdigest = sample_hmac,
      loads = sample_loads,
      dumps = sample_dumps,
      py_format = sample_format,
      isfile = (\<lambda>p. p \<in> set sample_files),
      access_X_OK = (\<lambda>p. p \<noteq> ''/srv/webhooks/hooks/README''),
      mkstemp = ''/tmp/tmpk3x9q2'',
      popen = sample_popen\<rparr>"

definition sample_cfg :: config where
  "sample_cfg =
     \<lparr>GITHUB_IPS_ONLY = None, ENFORCE_SECRET = Some ''s3cret'',
      RETURN_SCRIPTS_INFO = Some True\<rparr>"

definition sample_req :: request where
  "sample_req =
     \<lparr>req_method = ''POST'', remote_addr = ''192.30.252.10'',
      req_headers =
        [''X-GitHub-Event'' \<mapsto> ''push'',
         ''X-Hub-Signature'' \<mapsto> ''sha1=c417801017aa9172e8f2d4d870785253074e456b''],
      req_data = push_body\<rparr>"

text \<open>The same request without an event header and with GitLab's \<^verbatim>\<open>object_kind\<close> in the
  body; for a repository named \<^verbatim>\<open>x/all\<close>; with the event \<^verbatim>\<open>/bin/sh\<close>; with the event
  \<^verbatim>\<open>ping\<close>; and with the ref \<^verbatim>\<open>main\<close>. Each carries the digest of its body.\<close>

definition gitlab_req :: request where
  "gitlab_req =
     sample_req
       \<lparr>req_headers :=
          [''X-Hub-Signature'' \<mapsto> ''sha1=ac53407f637f4318dc2262dd7243b3b1a0ef671c''],
        req_data := gitlab_body\<rparr>"

definition nested_req :: request where
  "nested_req =
     sample_req
       \<lparr>req_headers :=
          [''X-GitHub-Event'' \<mapsto> ''push'',
           ''X-Hub-Signature'' \<mapsto> ''sha1=28588d2ef8ff6a4991a91a6b84687ce29f3eb4d8''],
        req_data := nested_body\<rparr>"

definition traversal_req :: request where
  "traversal_req =
     sample_req
       \<lparr>req_headers :=
          [''X-GitHub-Event'' \<mapsto> ''/bin/sh'',
           ''X-Hub-Signature'' \<mapsto> ''sha1=c417801017aa9172e8f2d4d870785253074e456b'']\<rparr>"

definition ping_req :: request where
  "ping_req =
     sample_req
       \<lparr>req_headers :=
          [''X-GitHub-Event'' \<mapsto> ''ping'',
           ''X-Hub-Signature'' \<mapsto> ''sha1=c417801017aa9172e8f2d4d870785253074e456b'']\<rparr>"

definition short_ref_req :: request where
  "short_ref_req =
     sample_req
       \<lparr>req_headers :=
          [''X-GitHub-Event'' \<mapsto> ''push'',
           ''X-Hub-Signature'' \<mapsto> ''sha1=0ae4cbe41d59051090012ea3ec87bcba8e1d5940''],
        req_data := short_ref_body\<rparr>"

section \<open>Lemmas\<close>

subsection \<open>Splitting text\<close>

lemma split_chr_not_Nil: "split_chr sep s \<noteq> []"
  by (induction s) (auto split: list.splits)

lemma split_chr_no_sep: "sep \<notin> set s \<Longrightarrow> split_chr sep s = [s]"
  by (induction s) auto

lemma split_chr_at_sep:
  "sep \<notin> set a \<Longrightarrow> split_chr sep (a @ sep # b) = a # split_chr sep b"
  by (induction a) auto

lemma length_split_chr: "length (split_chr sep s) = Suc (count_list s sep)"
  by (induction s) (auto split: list.splits simp: split_chr_not_Nil)

subsection \<open>Validation\<close>

lemma index_allowed:
  "req_method req = ''POST'' \<Longrightarrow> allow_github_ips env cfg req = Inr u
     \<Longrightarrow> index env cfg req = check_signature env cfg req"
  by (simp add: index_def)

lemma check_signature_passed:
  "enforce_secret env cfg req = Inr u
     \<Longrightarrow> check_signature env cfg req = handle_event env cfg req"
  by (simp add: check_signature_def)

lemma index_validated:
  "req_method req = ''POST'' \<Longrightarrow> allow_github_ips env cfg req = Inr u
     \<Longrightarrow> enforce_secret env cfg req = Inr u'
     \<Longrightarrow> index env cfg req = handle_event env cfg req"
  by (simp add: index_allowed check_signature_passed)

lemma in_whitelist_parsed:
  "\<forall>v \<in> set whitelist. ip_network env v = Inr (net v)
     \<Longrightarrow> in_whitelist env src_ip whitelist
           = Inr (\<exists>v \<in> set whitelist. ip_in_network env src_ip (net v))"
  by (induction whitelist) auto

lemma sample_allowed: "allow_github_ips sample_env sample_cfg sample_req = Inr ()"
  by (simp add: allow_github_ips_def config_get_def sample_env_def sample_cfg_def
        sample_req_def)

subsection \<open>After validation\<close>

lemma handle_event_invalid:
  "gather_data env req (get_event req) = Inl e
     \<Longrightarrow> handle_event env cfg req
         = (Abort 400, implement_ping (get_event req) @ [LogException ''invalid payload'' e])"
  by (simp add: handle_event_def process_payload_def)

lemma handle_event_gathered:
  "gather_data env req (get_event req) = Inr (payload, m)
     \<Longrightarrow> handle_event env cfg req
         = (fst (run_hooks env cfg payload m (get_event req)),
            implement_ping (get_event req) @ snd (run_hooks env cfg payload m (get_event req)))"
  by (simp add: handle_event_def process_payload_def Let_def case_prod_beta)

subsection \<open>The mapping of results\<close>




subsection \<open>The loop over the scripts\<close>

text \<open>The effects of the loop on the file system and the children are its launches, in
  the order of the scripts, whether the children start or not.\<close>

lemma run_scripts_system_effects:
  "\<exists>n \<le> length ss. system_effects (snd (run_scripts env tmp ev k ss d))
       = map (\<lambda>s. Popen [s, tmp, ev]) (take n ss)"
proof (induction ss arbitrary: k d)
  case Nil
  then show ?case by (simp add: system_effects_def)
next
  case (Cons s ss)
  show ?case
  proof (cases "popen env k [s, tmp, ev]")
    case (Inl e)
    then have "system_effects (snd (run_scripts env tmp ev k (s # ss) d))
        = map (\<lambda>s. Popen [s, tmp, ev]) (take 1 (s # ss))"
      by (simp add: system_effects_def)
    then show ?thesis
      by (metis One_nat_def Suc_leI length_Cons zero_less_Suc)
  next
    case (Inr p)
    obtain n where n: "n \<le> length ss"
      "system_effects (snd (run_scripts env tmp ev (Suc k) ss (setitem d (basename s) p)))
         = map (\<lambda>s. Popen [s, tmp, ev]) (take n ss)"
      using Cons.IH by blast
    have "system_effects (snd (run_scripts env tmp ev k (s # ss) d))
        = map (\<lambda>s. Popen [s, tmp, ev]) (take (Suc n) (s # ss))"
      using Inr n(2) by (simp add: system_effects_def case_prod_beta)
    then show ?thesis
      using n(1) by (metis Suc_le_mono length_Cons)
  qed
qed

text \<open>When every child starts, the loop ends with the mapping filled script by script
  and with one launch per script, followed by an error record where the child failed.\<close>

lemma run_scripts_launched:
  assumes "length ps = length ss"
    and "\<forall>j < length ss. popen env (k + j) [ss ! j, tmp, ev] = Inr (ps ! j)"
  shows "run_scripts env tmp ev k ss d =
     (Inr (fold (\<lambda>(s, p) d. setitem d (basename s) p) (zip ss ps) d),
      concat (map (\<lambda>(s, p). Popen [s, tmp, ev]
                     # (if returncode p \<noteq> 0 then [LogHookFailed s (returncode p) (stderr p)]
                        else []))
                (zip ss ps)))"
  using assms
proof (induction ss arbitrary: k ps d)
  case Nil
  then show ?case by simp
next
  case (Cons s ss)
  then obtain p ps' where ps: "ps = p # ps'" "length ps' = length ss"
    by (cases ps) auto
  have first: "popen env k [s, tmp, ev] = Inr p"
    using Cons.prems(2) ps(1) by fastforce
  have rest: "\<forall>j < length ss. popen env (Suc k + j) [ss ! j, tmp, ev] = Inr (ps' ! j)"
  proof (intro allI impI)
    fix j assume "j < length ss"
    then have "popen env (k + Suc j) [(s # ss) ! Suc j, tmp, ev] = Inr (ps ! Suc j)"
      using Cons.prems(2) by (metis Suc_less_eq length_Cons)
    then show "popen env (Suc k + j) [ss ! j, tmp, ev] = Inr (ps' ! j)"
      by (simp add: ps(1))
  qed
  show ?case
    using first Cons.IH [OF ps(2) rest] by (simp add: ps(1))
qed




lemma launches_append: "launches (xs @ ys) = launches xs @ launches ys"
  by (induction xs rule: launches.induct) auto

lemma system_effects_ping: "system_effects (implement_ping ev @ effects) = system_effects effects"
  by (simp add: system_effects_def implement_ping_def)

lemma loop_system_effects:
  "length ps = length ss \<Longrightarrow>
   system_effects
     (concat (map (\<lambda>(s, p). Popen [s, tmp, ev]
                     # (if returncode p \<noteq> 0 then [LogHookFailed s (returncode p) (stderr p)]
                        else []))
                (zip ss ps)))
     = map (\<lambda>s. Popen [s, tmp, ev]) ss"
  by (induction ss ps rule: list_induct2') (auto simp: system_effects_def)

subsection \<open>From the candidates to the response\<close>

lemma run_hooks_nothing:
  "runnable env (candidate_scripts env (join (app_path env) ''hooks'') m) = []
     \<Longrightarrow> run_hooks env cfg payload m ev
         = (Return [],
            [LogWarning (''nothing found for ''
               @ hd (candidate_scripts env (join (app_path env) ''hooks'') m))])"
  by (simp add: run_hooks_def)

lemma run_hooks_launched:
  assumes "scripts = runnable env (candidate_scripts env (join (app_path env) ''hooks'') m)"
    and "scripts \<noteq> []"
    and "length ps = length scripts"
    and "\<forall>k < length scripts. popen env k [scripts ! k, mkstemp env, ev] = Inr (ps ! k)"
    and "d = fold (\<lambda>(s, p) d. setitem d (basename s) p) (zip scripts ps) []"
  shows "run_hooks env cfg payload m ev =
     (Return (if config_get (RETURN_SCRIPTS_INFO cfg) False then dumps_sorted env d else []),
      [Mkstemp (mkstemp env), WriteFile (mkstemp env) (dumps env payload)]
      @ concat (map (\<lambda>(s, p). Popen [s, mkstemp env, ev]
                     # (if returncode p \<noteq> 0 then [LogHookFailed s (returncode p) (stderr p)]
                        else []))
                (zip scripts ps))
      @ [RemoveFile (mkstemp env)]
      @ (if config_get (RETURN_SCRIPTS_INFO cfg) False then [LogInfo (dumps_sorted env d)]
         else []))"
proof -
  have "run_scripts env (mkstemp env) ev 0 scripts [] =
     (Inr d,
      concat (map (\<lambda>(s, p). Popen [s, mkstemp env, ev]
                     # (if returncode p \<noteq> 0 then [LogHookFailed s (returncode p) (stderr p)]
                        else []))
                (zip scripts ps)))"
    using run_scripts_launched [of ps scripts env 0 "mkstemp env" ev "[]"] assms(3,4,5)
    by simp
  then show ?thesis
    using assms(1,2) by (simp add: run_hooks_def Let_def)
qed

lemma run_hooks_system_effects:
  assumes "scripts = runnable env (candidate_scripts env (join (app_path env) ''hooks'') m)"
    and "scripts \<noteq> []"
  shows "\<exists>n \<le> length scripts. \<exists>removal.
     system_effects (snd (run_hooks env cfg payload m ev))
       = Mkstemp (mkstemp env) # WriteFile (mkstemp env) (dumps env payload)
         # map (\<lambda>s. Popen [s, mkstemp env, ev]) (take n scripts) @ removal
     \<and> (removal = [] \<or> removal = [RemoveFile (mkstemp env)])"
proof -
  obtain n where n: "n \<le> length scripts"
    "system_effects (snd (run_scripts env (mkstemp env) ev 0 scripts []))
       = map (\<lambda>s. Popen [s, mkstemp env, ev]) (take n scripts)"
    using run_scripts_system_effects by blast
  obtain result effects where r: "run_scripts env (mkstemp env) ev 0 scripts [] = (result, effects)"
    by (cases "run_scripts env (mkstemp env) ev 0 scripts []")
  have e: "system_effects effects = map (\<lambda>s. Popen [s, mkstemp env, ev]) (take n scripts)"
    using n(2) r by simp
  have "\<exists>removal.
     system_effects (snd (run_hooks env cfg payload m ev))
       = Mkstemp (mkstemp env) # WriteFile (mkstemp env) (dumps env payload)
         # map (\<lambda>s. Popen [s, mkstemp env, ev]) (take n scripts) @ removal
     \<and> (removal = [] \<or> removal = [RemoveFile (mkstemp env)])"
  proof (cases result)
    case (Inl x)
    have "system_effects (snd (run_hooks env cfg payload m ev))
       = Mkstemp (mkstemp env) # WriteFile (mkstemp env) (dumps env payload)
         # map (\<lambda>s. Popen [s, mkstemp env, ev]) (take n scripts) @ []"
      using assms r Inl e by (simp add: run_hooks_def Let_def system_effects_def)
    then show ?thesis by blast
  next
    case (Inr d)
    have "system_effects (snd (run_hooks env cfg payload m ev))
       = Mkstemp (mkstemp env) # WriteFile (mkstemp env) (dumps env payload)
         # map (\<lambda>s. Popen [s, mkstemp env, ev]) (take n scripts) @ [RemoveFile (mkstemp env)]"
      using assms r Inr e by (simp add: run_hooks_def Let_def system_effects_def)
    then show ?thesis by blast
  qed
  then show ?thesis
    using n(1) by blast
qed

lemma index_gathered:
  assumes "req_method req = ''POST''"
    and "allow_github_ips env cfg req = Inr ()"
    and "enforce_secret env cfg req = Inr ()"
    and "gather_data env req (get_event req) = Inr (payload, m)"
  shows "index env cfg req
     = (fst (run_hooks env cfg payload m (get_event req)),
        implement_ping (get_event req) @ snd (run_hooks env cfg payload m (get_event req)))"
  using assms by (simp add: index_validated handle_event_gathered)

lemma launched_results:
  assumes "\<forall>k < n. \<exists>p. popen env k (argv k) = Inr p"
  obtains ps where "length ps = n" and "\<forall>k < n. popen env k (argv k) = Inr (ps ! k)"
proof -
  obtain r where r: "\<forall>k < n. popen env k (argv k) = Inr (r k)"
    using assms by metis
  show thesis
    using that [of "map r [0..<n]"] r by simp
qed

subsection \<open>The sample request\<close>

lemmas sample_world =
  sample_env_def sample_cfg_def sample_req_def gitlab_req_def nested_req_def
  traversal_req_def ping_req_def short_ref_req_def sample_hmac_def sample_loads_def
  sample_payload_def sample_meta_def push_body_def gitlab_body_def nested_body_def
  short_ref_body_def sample_files_def sample_popen_def

lemma sample_post: "req_method sample_req = ''POST''"
  by (simp add: sample_req_def)

lemma sample_enforced: "enforce_secret sample_env sample_cfg sample_req = Inr ()"
  by (simp add: enforce_secret_def config_get_def compare_digest_def sample_world)

lemma sample_event: "get_event sample_req = ''push''"
  by (simp add: get_event_def sample_req_def)

lemma sample_gathered:
  "gather_data sample_env sample_req ''push'' = Inr (sample_payload, sample_meta)"
  by (simp add: gather_data_def derive_branch_def subscript_def sample_world)

lemma sample_scripts:
  "runnable sample_env
     (candidate_scripts sample_env (join (app_path sample_env) ''hooks'') sample_meta)
   = [''/srv/webhooks/hooks/push-repo'', ''/srv/webhooks/hooks/all'']"
  by (simp add: runnable_def candidate_scripts_def candidate_names_def format_field_def
        join_def sample_world)

lemma sample_dumps_payload: "dumps sample_env sample_payload = push_body"
  by (simp add: sample_world quoted_def)

subsection \<open>The response with the results\<close>





lemma index_launched:
  assumes "req_method req = ''POST''"
    and "allow_github_ips env cfg req = Inr ()"
    and "enforce_secret env cfg req = Inr ()"
    and "gather_data env req (get_event req) = Inr (payload, m)"
    and "scripts = runnable env (candidate_scripts env (join (app_path env) ''hooks'') m)"
    and "scripts \<noteq> []"
    and "length ps = length scripts"
    and "\<forall>k < length scripts.
           popen env k [scripts ! k, mkstemp env, get_event req] = Inr (ps ! k)"
    and "d = fold (\<lambda>(s, p) d. setitem d (basename s) p) (zip scripts ps) []"
  shows "index env cfg req =
     (Return (if config_get (RETURN_SCRIPTS_INFO cfg) False then dumps_sorted env d else []),
      implement_ping (get_event req)
      @ [Mkstemp (mkstemp env), WriteFile (mkstemp env) (dumps env payload)]
      @ concat (map (\<lambda>(s, p). Popen [s, mkstemp env, get_event req]
                     # (if returncode p \<noteq> 0 then [LogHookFailed s (returncode p) (stderr p)]
                        else []))
                (zip scripts ps))
      @ [RemoveFile (mkstemp env)]
      @ (if config_get (RETURN_SCRIPTS_INFO cfg) False then [LogInfo (dumps_sorted env d)]
         else []))"
  using index_gathered [OF assms(1-4)] run_hooks_launched [OF assms(5-9), of cfg payload]
  by simp

lemma launches_loop:
  "length ps = length ss \<Longrightarrow>
   launches
     (concat (map (\<lambda>(s, p). Popen [s, tmp, ev]
                     # (if returncode p \<noteq> 0 then [LogHookFailed s (returncode p) (stderr p)]
                        else []))
                (zip ss ps)))
     = map (\<lambda>s. [s, tmp, ev]) ss"
  by (induction ss ps rule: list_induct2') auto


lemmas handler_defs =
  index_def allow_github_ips_def check_signature_def enforce_secret_def compare_digest_def
  config_get_def handle_event_def get_event_def implement_ping_def process_payload_def
  gather_data_def derive_branch_def subscript_def run_hooks_def candidate_scripts_def
  candidate_names_def format_field_def join_def runnable_def basename_def dumps_sorted_def
  proc_json_def Let_def

lemmas sample_text = quoted_def dec_int_def

subsection \<open>The candidates\<close>




subsection \<open>Gathering the data\<close>

lemma getitem_raises:
  "(\<exists>e. getitem v key = Inl e) \<longleftrightarrow> (\<forall>members. v = JObj members \<longrightarrow> key \<notin> fst ` set members)"
  by (cases v) (auto simp: map_of_eq_None_iff split: option.splits dest: map_of_SomeD
        intro: rev_image_eqI)

lemma gather_data_raises:
  assumes "(\<exists>e. loads env (req_data req) = Inl e)
     \<or> (\<exists>payload. loads env (req_data req) = Inr payload \<and>
          ((\<exists>e. getitem payload ''repository'' = Inl e)
           \<or> (\<exists>repository e. getitem payload ''repository'' = Inr repository
                  \<and> getitem repository ''name'' = Inl e)
           \<or> (\<exists>e. getitem payload ''ref'' = Inl e)
           \<or> (ev = [] \<and> (\<exists>e. getitem payload ''object_kind'' = Inl e))))"
  shows "\<exists>e. gather_data env req ev = Inl e"
  using assms by (auto simp: gather_data_def split: sum.splits)

subsection \<open>The event\<close>

lemma index_processes_payload:
  assumes "req_method req = ''POST''"
    and "allow_github_ips env cfg req = Inr ()"
    and "enforce_secret env cfg req = Inr ()"
  shows "index env cfg req
     = (fst (process_payload env cfg req (get_event req)),
        implement_ping (get_event req) @ snd (process_payload env cfg req (get_event req)))"
  using assms by (simp add: index_validated handle_event_def Let_def case_prod_beta)

section \<open>The claims\<close>

subsection \<open>The signature check\<close>

text \<open>
  \<^bold>\<open>Claim C1.\<close> With a non-empty secret configured, a request that has reached the
  signature check (a POST that the allowlist stage let through) and carries a signature
  header \<open>algorithm=hexdigest\<close> is answered 501 when the algorithm is not \<open>sha1\<close>;
  otherwise the HMAC-SHA1 of the raw request body under the secret is compared with the
  digest of the header, the request is answered 403 when they differ, and when they are
  equal the handler goes on with what follows validation. (\<open>compare_digest\<close> is
  modelled by what it decides, not by the time it takes.)
\<close>

theorem signature_enforced:
  assumes "req_method req = ''POST''"
    and "allow_github_ips env cfg req = Inr ()"
    and "ENFORCE_SECRET cfg = Some secret" and "secret \<noteq> []"
    and "req_headers req ''X-Hub-Signature'' = Some (sha_name @ ''='' @ signature)"
    and "CHR ''='' \<notin> set sha_name" and "CHR ''='' \<notin> set signature"
  shows "index env cfg req =
     (if sha_name \<noteq> ''sha1'' then (Abort 501, [])
      else if hmac_sha1_hexdigest env secret (req_data req) \<noteq> signature
      then (Abort 403, [])
      else handle_event env cfg req)"
proof -
  have parts: "split_chr CHR ''='' (sha_name @ ''='' @ signature) = [sha_name, signature]"
    using assms(6,7) by (simp add: split_chr_at_sep split_chr_no_sep)
  have "check_signature env cfg req =
     (if sha_name \<noteq> ''sha1'' then (Abort 501, [])
      else if hmac_sha1_hexdigest env secret (req_data req) \<noteq> signature
      then (Abort 403, [])
      else handle_event env cfg req)"
    using assms(3,4,5) parts
    by (simp add: check_signature_def enforce_secret_def config_get_def compare_digest_def)
  then show ?thesis
    using assms(1,2) by (simp add: index_allowed)
qed

text \<open>The sample request carries the digest of its body and passes; with another body
  under the same header it is answered 403, and with an \<open>md5\<close> signature 501.\<close>

theorem signature_enforced_witness:
  "req_method sample_req = ''POST''
   \<and> allow_github_ips sample_env sample_cfg sample_req = Inr ()
   \<and> ENFORCE_SECRET sample_cfg = Some ''s3cret''
   \<and> req_headers sample_req ''X-Hub-Signature''
       = Some (''sha1'' @ ''='' @ ''c417801017aa9172e8f2d4d870785253074e456b'')
   \<and> hmac_sha1_hexdigest sample_env ''s3cret'' (req_data sample_req)
       = ''c417801017aa9172e8f2d4d870785253074e456b''
   \<and> index sample_env sample_cfg sample_req = handle_event sample_env sample_cfg sample_req
   \<and> index sample_env sample_cfg (sample_req\<lparr>req_data := gitlab_body\<rparr>) = (Abort 403, [])
   \<and> index sample_env sample_cfg
        (sample_req\<lparr>req_headers :=
           [''X-Hub-Signature'' \<mapsto> ''md5=900150983cd24fb0d6963f7d28e17f72'']\<rparr>)
       = (Abort 501, [])"
proof -
  have m: "req_method sample_req = ''POST''"
    by (simp add: sample_req_def)
  have s: "ENFORCE_SECRET sample_cfg = Some ''s3cret''"
    by (simp add: sample_cfg_def)
  have h: "req_headers sample_req ''X-Hub-Signature''
       = Some (''sha1'' @ ''='' @ ''c417801017aa9172e8f2d4d870785253074e456b'')"
    by (simp add: sample_req_def)
  have d: "hmac_sha1_hexdigest sample_env ''s3cret'' (req_data sample_req)
       = ''c417801017aa9172e8f2d4d870785253074e456b''"
    by (simp add: sample_env_def sample_req_def sample_hmac_def)
  have a2: "allow_github_ips sample_env sample_cfg (sample_req\<lparr>req_data := gitlab_body\<rparr>)
       = Inr ()"
    by (simp add: allow_github_ips_def config_get_def sample_env_def sample_cfg_def
          sample_req_def)
  have a3: "allow_github_ips sample_env sample_cfg
        (sample_req\<lparr>req_headers :=
           [''X-Hub-Signature'' \<mapsto> ''md5=900150983cd24fb0d6963f7d28e17f72'']\<rparr>) = Inr ()"
    by (simp add: allow_github_ips_def config_get_def sample_env_def sample_cfg_def
          sample_req_def)
  have 1: "index sample_env sample_cfg sample_req
       = handle_event sample_env sample_cfg sample_req"
    using signature_enforced [OF m sample_allowed s _ h] d by simp
  have 2: "index sample_env sample_cfg (sample_req\<lparr>req_data := gitlab_body\<rparr>)
       = (Abort 403, [])"
    using signature_enforced [of "sample_req\<lparr>req_data := gitlab_body\<rparr>" sample_env
        sample_cfg "''s3cret''" "''sha1''" "''c417801017aa9172e8f2d4d870785253074e456b''"]
      a2 s
    by (simp add: sample_req_def sample_env_def sample_hmac_def gitlab_body_def
          push_body_def)
  have 3: "index sample_env sample_cfg
        (sample_req\<lparr>req_headers :=
           [''X-Hub-Signature'' \<mapsto> ''md5=900150983cd24fb0d6963f7d28e17f72'']\<rparr>)
       = (Abort 501, [])"
    using signature_enforced [of "sample_req\<lparr>req_headers :=
           [''X-Hub-Signature'' \<mapsto> ''md5=900150983cd24fb0d6963f7d28e17f72'']\<rparr>"
        sample_env sample_cfg "''s3cret''" "''md5''" "''900150983cd24fb0d6963f7d28e17f72''"]
      a3 s
    by (simp add: sample_req_def)
  show ?thesis
    using m sample_allowed s h d 1 2 3 by blast
qed

subsection \<open>The allowlist\<close>

text \<open>
  \<^bold>\<open>Claim C2.\<close> With allowlist mode on (\<open>GITHUB_IPS_ONLY\<close> set to true, or not set), a
  POST whose remote address parses, against a fetched allowlist whose entries all parse
  as networks, is answered 403 when the address lies in none of the networks, whatever
  its headers and body are; when it lies in one of them the handler goes on with the
  signature check.
\<close>

theorem allowlist_enforced:
  assumes "req_method req = ''POST''"
    and "config_get (GITHUB_IPS_ONLY cfg) True"
    and "ip_address env (remote_addr req) = Inr src_ip"
    and "get_whitelist env = Inr whitelist"
    and "\<forall>v \<in> set whitelist. ip_network env v = Inr (net v)"
  shows "index env cfg req =
     (if \<exists>v \<in> set whitelist. ip_in_network env src_ip (net v)
      then check_signature env cfg req
      else (Abort 403, []))"
  using assms(1-4) in_whitelist_parsed [OF assms(5), of src_ip]
  by (simp add: index_def allow_github_ips_def)

text \<open>The sample request from \<^verbatim>\<open>10.0.0.1\<close>, which is in neither network, is answered
  403; from \<^verbatim>\<open>192.30.252.10\<close>, in the first network, it reaches the signature check.\<close>

theorem allowlist_enforced_witness:
  "req_method sample_req = ''POST''
   \<and> config_get (GITHUB_IPS_ONLY sample_cfg) True
   \<and> ip_address sample_env ''10.0.0.1'' = Inr 167772161
   \<and> ip_address sample_env ''192.30.252.10'' = Inr 3223256074
   \<and> get_whitelist sample_env = Inr [''192.30.252.0/22'', ''185.199.108.0/22'']
   \<and> ip_network sample_env ''192.30.252.0/22'' = Inr (3223256064, 22)
   \<and> ip_network sample_env ''185.199.108.0/22'' = Inr (3116854272, 22)
   \<and> index sample_env sample_cfg (sample_req\<lparr>remote_addr := ''10.0.0.1''\<rparr>)
       = (Abort 403, [])
   \<and> index sample_env sample_cfg sample_req
       = check_signature sample_env sample_cfg sample_req"
proof -
  define net :: "string \<Rightarrow> int \<times> nat" where
    "net = (\<lambda>v. if v = ''192.30.252.0/22'' then (3223256064, 22) else (3116854272, 22))"
  have m: "req_method sample_req = ''POST''"
    and m': "req_method (sample_req\<lparr>remote_addr := ''10.0.0.1''\<rparr>) = ''POST''"
    by (simp_all add: sample_req_def)
  have g: "config_get (GITHUB_IPS_ONLY sample_cfg) True"
    by (simp add: sample_cfg_def config_get_def)
  have a: "ip_address sample_env (remote_addr sample_req) = Inr 3223256074"
    and a': "ip_address sample_env (remote_addr (sample_req\<lparr>remote_addr := ''10.0.0.1''\<rparr>))
       = Inr 167772161"
    by (simp_all add: sample_env_def sample_req_def)
  have w: "get_whitelist sample_env = Inr [''192.30.252.0/22'', ''185.199.108.0/22'']"
    by (simp add: sample_env_def)
  have n: "\<forall>v \<in> set [''192.30.252.0/22'', ''185.199.108.0/22''].
             ip_network sample_env v = Inr (net v)"
    by (simp add: sample_env_def net_def)
  have 1: "index sample_env sample_cfg (sample_req\<lparr>remote_addr := ''10.0.0.1''\<rparr>)
       = (Abort 403, [])"
    using allowlist_enforced [OF m' g a' w n] by (simp add: sample_env_def net_def)
  have 2: "index sample_env sample_cfg sample_req
       = check_signature sample_env sample_cfg sample_req"
    using allowlist_enforced [OF m g a w n] by (simp add: sample_env_def net_def)
  show ?thesis
    using m g a a' w n 1 2 by (simp add: sample_req_def net_def)
qed

subsection \<open>The candidates and the selection\<close>




subsection \<open>The temporary file\<close>

text \<open>
  \<^bold>\<open>Claim C4.\<close> For a request that has passed validation and whose payload has been
  gathered: when no candidate is runnable the handler touches no file and starts no
  child; otherwise the temporary file is created and the serialised payload written to
  it once, before the first child is launched, nothing but launches follows, and the
  file is removed at most once, at the very end; when every child has started and
  finished, whatever the exit codes, the effects are the creation, the write, one launch
  per script and the removal.
\<close>

theorem temp_file_lifecycle:
  assumes "req_method req = ''POST''"
    and "allow_github_ips env cfg req = Inr ()"
    and "enforce_secret env cfg req = Inr ()"
    and "gather_data env req (get_event req) = Inr (payload, m)"
    and "scripts = runnable env (candidate_scripts env (join (app_path env) ''hooks'') m)"
  shows "(scripts = [] \<longrightarrow> system_effects (snd (index env cfg req)) = [])
    \<and> (scripts \<noteq> [] \<longrightarrow>
         (\<exists>n \<le> length scripts. \<exists>removal.
            system_effects (snd (index env cfg req))
              = Mkstemp (mkstemp env) # WriteFile (mkstemp env) (dumps env payload)
                # map (\<lambda>s. Popen [s, mkstemp env, get_event req]) (take n scripts) @ removal
            \<and> (removal = [] \<or> removal = [RemoveFile (mkstemp env)])))
    \<and> (scripts \<noteq> []
        \<and> (\<forall>k < length scripts.
              \<exists>p. popen env k [scripts ! k, mkstemp env, get_event req] = Inr p) \<longrightarrow>
         system_effects (snd (index env cfg req))
           = Mkstemp (mkstemp env) # WriteFile (mkstemp env) (dumps env payload)
             # map (\<lambda>s. Popen [s, mkstemp env, get_event req]) scripts
             @ [RemoveFile (mkstemp env)])"
proof -
  let ?ev = "get_event req"
  have effects: "system_effects (snd (index env cfg req))
      = system_effects (snd (run_hooks env cfg payload m ?ev))"
    using index_gathered [OF assms(1-4)] by (simp add: system_effects_ping)
  have none: "scripts = [] \<longrightarrow> system_effects (snd (index env cfg req)) = []"
    using effects assms(5) by (simp add: run_hooks_nothing system_effects_def)
  have some: "scripts \<noteq> [] \<longrightarrow>
         (\<exists>n \<le> length scripts. \<exists>removal.
            system_effects (snd (index env cfg req))
              = Mkstemp (mkstemp env) # WriteFile (mkstemp env) (dumps env payload)
                # map (\<lambda>s. Popen [s, mkstemp env, ?ev]) (take n scripts) @ removal
            \<and> (removal = [] \<or> removal = [RemoveFile (mkstemp env)]))"
    using run_hooks_system_effects [OF assms(5), of cfg payload ?ev] effects by simp
  have all: "system_effects (snd (index env cfg req))
           = Mkstemp (mkstemp env) # WriteFile (mkstemp env) (dumps env payload)
             # map (\<lambda>s. Popen [s, mkstemp env, ?ev]) scripts @ [RemoveFile (mkstemp env)]"
    if ne: "scripts \<noteq> []"
      and ok: "\<forall>k < length scripts. \<exists>p. popen env k [scripts ! k, mkstemp env, ?ev] = Inr p"
  proof -
    obtain ps where ps: "length ps = length scripts"
      "\<forall>k < length scripts. popen env k [scripts ! k, mkstemp env, ?ev] = Inr (ps ! k)"
      using launched_results [OF ok] by blast
    show ?thesis
      using run_hooks_launched [OF assms(5) ne ps refl, of cfg payload]
        loop_system_effects [OF ps(1), of "mkstemp env" ?ev] effects
      by (simp add: system_effects_def)
  qed
  show ?thesis
    using none some all by blast
qed

text \<open>The sample request selects two hooks; the second exits with status 1.\<close>

theorem temp_file_lifecycle_witness:
  "runnable sample_env
     (candidate_scripts sample_env (join (app_path sample_env) ''hooks'') sample_meta)
   = [''/srv/webhooks/hooks/push-repo'', ''/srv/webhooks/hooks/all'']
   \<and> popen sample_env 0 [''/srv/webhooks/hooks/push-repo'', ''/tmp/tmpk3x9q2'', ''push'']
       = Inr \<lparr>returncode = 0, stdout = ''deployed'', stderr = []\<rparr>
   \<and> popen sample_env 1 [''/srv/webhooks/hooks/all'', ''/tmp/tmpk3x9q2'', ''push'']
       = Inr \<lparr>returncode = 1, stdout = [], stderr = ''boom''\<rparr>
   \<and> system_effects (snd (index sample_env sample_cfg sample_req))
       = [Mkstemp ''/tmp/tmpk3x9q2'', WriteFile ''/tmp/tmpk3x9q2'' push_body,
          Popen [''/srv/webhooks/hooks/push-repo'', ''/tmp/tmpk3x9q2'', ''push''],
          Popen [''/srv/webhooks/hooks/all'', ''/tmp/tmpk3x9q2'', ''push''],
          RemoveFile ''/tmp/tmpk3x9q2'']"
proof -
  have g: "gather_data sample_env sample_req (get_event sample_req)
      = Inr (sample_payload, sample_meta)"
    by (simp add: sample_event sample_gathered)
  have p0: "popen sample_env 0 [''/srv/webhooks/hooks/push-repo'', ''/tmp/tmpk3x9q2'', ''push'']
       = Inr \<lparr>returncode = 0, stdout = ''deployed'', stderr = []\<rparr>"
    and p1: "popen sample_env 1 [''/srv/webhooks/hooks/all'', ''/tmp/tmpk3x9q2'', ''push'']
       = Inr \<lparr>returncode = 1, stdout = [], stderr = ''boom''\<rparr>"
    by (simp_all add: sample_env_def sample_popen_def)
  have tmp: "mkstemp sample_env = ''/tmp/tmpk3x9q2''"
    by (simp add: sample_env_def)
  have "system_effects (snd (index sample_env sample_cfg sample_req))
       = [Mkstemp ''/tmp/tmpk3x9q2'', WriteFile ''/tmp/tmpk3x9q2'' push_body,
          Popen [''/srv/webhooks/hooks/push-repo'', ''/tmp/tmpk3x9q2'', ''push''],
          Popen [''/srv/webhooks/hooks/all'', ''/tmp/tmpk3x9q2'', ''push''],
          RemoveFile ''/tmp/tmpk3x9q2'']"
    using temp_file_lifecycle [OF sample_post sample_allowed sample_enforced g refl] p0 p1
    by (simp add: sample_scripts sample_event sample_dumps_payload tmp less_Suc_eq)
  then show ?thesis
    using sample_scripts p0 p1 by blast
qed

subsection \<open>The arguments of a hook\<close>

text \<open>
  \<^bold>\<open>Claim C5\<close> at a request without an event header whose payload has
  \<^verbatim>\<open>object_kind = "push"\<close>: the event derived for the request is \<^verbatim>\<open>push\<close>, and it names
  the candidates, but the children are launched with the event of the headers, the empty
  string, as their second argument (line 152 passes \<^verbatim>\<open>event\<close>, not \<^verbatim>\<open>meta['event']\<close>).
\<close>

theorem popen_event_argument:
  "req_headers gitlab_req ''X-GitHub-Event'' = None
   \<and> req_headers gitlab_req ''X-Gitlab-Event'' = None
   \<and> get_event gitlab_req = []
   \<and> gather_data sample_env gitlab_req []
       = Inr (JObj [(''object_kind'', JStr ''push''),
                    (''repository'', JObj [(''name'', JStr ''repo'')]),
                    (''ref'', JStr ''refs/heads/main'')],
              \<lparr>meta_name = JStr ''repo'', meta_branch = ''main'', meta_event = JStr ''push''\<rparr>)
   \<and> runnable sample_env
        (candidate_scripts sample_env (join (app_path sample_env) ''hooks'')
           \<lparr>meta_name = JStr ''repo'', meta_branch = ''main'', meta_event = JStr ''push''\<rparr>)
       = [''/srv/webhooks/hooks/push-repo'', ''/srv/webhooks/hooks/all'']
   \<and> launches (snd (index sample_env sample_cfg gitlab_req))
       = [[''/srv/webhooks/hooks/push-repo'', ''/tmp/tmpk3x9q2'', []],
          [''/srv/webhooks/hooks/all'', ''/tmp/tmpk3x9q2'', []]]"
  by (simp add: handler_defs sample_world sample_text)

subsection \<open>Running the hooks\<close>




subsection \<open>Invalid payloads\<close>

text \<open>
  \<^bold>\<open>Claim C7.\<close> A request that has passed validation is answered 400, after the
  exception has been logged with \<^verbatim>\<open>logging.exception\<close> (the record carries the exception
  and its traceback), when its body does not parse as JSON, or when in the parsed
  payload the lookup of \<^verbatim>\<open>repository\<close>, of \<^verbatim>\<open>name\<close> in it, or of \<^verbatim>\<open>ref\<close> raises, or when
  there is no event in the headers and the lookup of \<^verbatim>\<open>object_kind\<close> raises. By
  \<open>getitem_raises\<close> a lookup raises exactly when the value is not an object that has
  the key.
\<close>

theorem invalid_payload_rejected:
  assumes "req_method req = ''POST''"
    and "allow_github_ips env cfg req = Inr ()"
    and "enforce_secret env cfg req = Inr ()"
    and "(\<exists>e. loads env (req_data req) = Inl e)
     \<or> (\<exists>payload. loads env (req_data req) = Inr payload \<and>
          ((\<exists>e. getitem payload ''repository'' = Inl e)
           \<or> (\<exists>repository e. getitem payload ''repository'' = Inr repository
                  \<and> getitem repository ''name'' = Inl e)
           \<or> (\<exists>e. getitem payload ''ref'' = Inl e)
           \<or> (get_event req = [] \<and> (\<exists>e. getitem payload ''object_kind'' = Inl e))))"
  shows "\<exists>e. index env cfg req
     = (Abort 400, implement_ping (get_event req) @ [LogException ''invalid payload'' e])"
proof -
  obtain e where "gather_data env req (get_event req) = Inl e"
    using gather_data_raises [OF assms(4)] by blast
  then show ?thesis
    using assms(1-3) by (simp add: index_validated handle_event_invalid)
qed

text \<open>The sample request with a body that is not JSON, and the sample request in a
  world where the body parses to a payload without \<^verbatim>\<open>ref\<close>.\<close>

theorem invalid_payload_rejected_witness:
  "loads sample_env ''not json'' = Inl ValueError
   \<and> index sample_env sample_cfg
        (sample_req
           \<lparr>req_headers :=
              [''X-GitHub-Event'' \<mapsto> ''push'',
               ''X-Hub-Signature'' \<mapsto> ''sha1=0000000000000000000000000000000000000000''],
            req_data := ''not json''\<rparr>)
       = (Abort 400, [LogException ''invalid payload'' ValueError])
   \<and> getitem (JObj [(''repository'', JObj [(''name'', JStr ''repo'')])]) ''ref'' = Inl KeyError
   \<and> index (sample_env\<lparr>loads := \<lambda>body. Inr (JObj [(''repository'', JObj [(''name'', JStr ''repo'')])])\<rparr>)
        sample_cfg sample_req
       = (Abort 400, [LogException ''invalid payload'' KeyError])"
proof -
  let ?req = "sample_req
           \<lparr>req_headers :=
              [''X-GitHub-Event'' \<mapsto> ''push'',
               ''X-Hub-Signature'' \<mapsto> ''sha1=0000000000000000000000000000000000000000''],
            req_data := ''not json''\<rparr>"
  let ?env = "sample_env\<lparr>loads := \<lambda>body. Inr (JObj [(''repository'', JObj [(''name'', JStr ''repo'')])])\<rparr>"
  have m: "req_method ?req = ''POST''"
    by (simp add: sample_req_def)
  have a: "allow_github_ips sample_env sample_cfg ?req = Inr ()"
    by (simp add: allow_github_ips_def config_get_def sample_world)
  have s: "enforce_secret sample_env sample_cfg ?req = Inr ()"
    by (simp add: enforce_secret_def config_get_def compare_digest_def sample_world)
  have l: "loads sample_env (req_data ?req) = Inl ValueError"
    by (simp add: sample_world)
  have "\<exists>e. index sample_env sample_cfg ?req
     = (Abort 400, implement_ping (get_event ?req) @ [LogException ''invalid payload'' e])"
    using invalid_payload_rejected [OF m a s] l by blast
  moreover have "gather_data sample_env ?req (get_event ?req) = Inl ValueError"
    using l by (simp add: gather_data_def)
  ultimately have 1: "index sample_env sample_cfg ?req
       = (Abort 400, [LogException ''invalid payload'' ValueError])"
    using m a s by (simp add: index_validated handle_event_invalid implement_ping_def
          get_event_def sample_req_def)
  have a': "allow_github_ips ?env sample_cfg sample_req = Inr ()"
    by (simp add: allow_github_ips_def config_get_def sample_world)
  have s': "enforce_secret ?env sample_cfg sample_req = Inr ()"
    by (simp add: enforce_secret_def config_get_def compare_digest_def sample_world)
  have l': "loads ?env (req_data sample_req)
      = Inr (JObj [(''repository'', JObj [(''name'', JStr ''repo'')])])"
    by simp
  have k: "getitem (JObj [(''repository'', JObj [(''name'', JStr ''repo'')])]) ''ref'' = Inl KeyError"
    by simp
  have "\<exists>e. index ?env sample_cfg sample_req
     = (Abort 400, implement_ping (get_event sample_req) @ [LogException ''invalid payload'' e])"
    using invalid_payload_rejected [OF sample_post a' s'] l' k by blast
  moreover have "gather_data ?env sample_req (get_event sample_req) = Inl KeyError"
    by (simp add: gather_data_def)
  ultimately have 2: "index ?env sample_cfg sample_req
       = (Abort 400, [LogException ''invalid payload'' KeyError])"
    using sample_post a' s'
    by (simp add: index_validated handle_event_invalid implement_ping_def sample_event)
  show ?thesis
    using l 1 k 2 by (simp add: sample_req_def)
qed

subsection \<open>Pings\<close>

text \<open>
  \<^bold>\<open>Claim C8.\<close> A validated request whose event is \<^verbatim>\<open>ping\<close> is processed by the same
  lines 116-178 as a request with any other event, and differs from it in one
  informational log record that comes first: a payload that cannot be gathered is
  answered 400, and when the payload is gathered every runnable candidate is launched
  (every child starting), with \<^verbatim>\<open>ping\<close> as the event argument.
\<close>

theorem ping_not_short_circuited:
  assumes "req_method req = ''POST''"
    and "allow_github_ips env cfg req = Inr ()"
    and "enforce_secret env cfg req = Inr ()"
    and "get_event req = ''ping''"
  shows "index env cfg req
       = (fst (process_payload env cfg req ''ping''),
          LogInfo ''just a ping'' # snd (process_payload env cfg req ''ping''))
    \<and> (\<forall>req'. req_method req' = ''POST'' \<and> allow_github_ips env cfg req' = Inr ()
           \<and> enforce_secret env cfg req' = Inr () \<and> get_event req' \<noteq> ''ping''
         \<longrightarrow> index env cfg req' = process_payload env cfg req' (get_event req'))
    \<and> (\<forall>e. gather_data env req ''ping'' = Inl e \<longrightarrow>
          index env cfg req
            = (Abort 400, [LogInfo ''just a ping'', LogException ''invalid payload'' e]))
    \<and> (\<forall>payload m scripts.
          gather_data env req ''ping'' = Inr (payload, m)
          \<and> scripts = runnable env (candidate_scripts env (join (app_path env) ''hooks'') m)
          \<and> (\<forall>k < length scripts.
                \<exists>p. popen env k [scripts ! k, mkstemp env, ''ping''] = Inr p)
         \<longrightarrow> launches (snd (index env cfg req))
               = map (\<lambda>s. [s, mkstemp env, ''ping'']) scripts)"
proof -
  have ping: "index env cfg req
       = (fst (process_payload env cfg req ''ping''),
          LogInfo ''just a ping'' # snd (process_payload env cfg req ''ping''))"
    using index_processes_payload [OF assms(1-3)] by (simp add: assms(4) implement_ping_def)
  have other: "index env cfg req' = process_payload env cfg req' (get_event req')"
    if "req_method req' = ''POST'' \<and> allow_github_ips env cfg req' = Inr ()
           \<and> enforce_secret env cfg req' = Inr () \<and> get_event req' \<noteq> ''ping''"
    for req'
    using that index_processes_payload [of req' env cfg] by (simp add: implement_ping_def)
  have invalid: "index env cfg req
            = (Abort 400, [LogInfo ''just a ping'', LogException ''invalid payload'' e])"
    if "gather_data env req ''ping'' = Inl e" for e
    using that by (simp add: ping process_payload_def)
  have runs: "launches (snd (index env cfg req))
               = map (\<lambda>s. [s, mkstemp env, ''ping'']) scripts"
    if g: "gather_data env req ''ping'' = Inr (payload, m)"
      and s: "scripts = runnable env (candidate_scripts env (join (app_path env) ''hooks'') m)"
      and ok: "\<forall>k < length scripts.
                \<exists>p. popen env k [scripts ! k, mkstemp env, ''ping''] = Inr p"
    for payload m scripts
  proof (cases "scripts = []")
    case True
    then show ?thesis
      using g s by (simp add: ping process_payload_def run_hooks_nothing)
  next
    case False
    obtain ps where ps: "length ps = length scripts"
      "\<forall>k < length scripts. popen env k [scripts ! k, mkstemp env, ''ping''] = Inr (ps ! k)"
      using launched_results [OF ok] by blast
    have g': "gather_data env req (get_event req) = Inr (payload, m)"
      using g by (simp add: assms(4))
    have ps': "\<forall>k < length scripts.
        popen env k [scripts ! k, mkstemp env, get_event req] = Inr (ps ! k)"
      using ps(2) by (simp add: assms(4))
    show ?thesis
      using index_launched [OF assms(1-3) g' s False ps(1) ps' refl]
        launches_loop [OF ps(1), of "mkstemp env" "get_event req"]
      by (simp add: launches_append implement_ping_def assms(4))
  qed
  show ?thesis
    using ping other invalid runs by blast
qed

text \<open>The sample push sent as a ping runs \<^verbatim>\<open>hooks/all\<close>; with a body that does not match
  the signature it is answered 403, and in a world where no body parses, 400.\<close>

theorem ping_not_short_circuited_witness:
  \<open>get_event ping_req = ''ping''
   \<and> index sample_env sample_cfg ping_req
       = (Return ''{"all": {"returncode": 1, "stderr": "boom", "stdout": ""}}'',
          [LogInfo ''just a ping'',
           Mkstemp ''/tmp/tmpk3x9q2'', WriteFile ''/tmp/tmpk3x9q2'' push_body,
           Popen [''/srv/webhooks/hooks/all'', ''/tmp/tmpk3x9q2'', ''ping''],
           LogHookFailed ''/srv/webhooks/hooks/all'' 1 ''boom'',
           RemoveFile ''/tmp/tmpk3x9q2'',
           LogInfo ''{"all": {"returncode": 1, "stderr": "boom", "stdout": ""}}''])
   \<and> index sample_env sample_cfg (ping_req\<lparr>req_data := gitlab_body\<rparr>) = (Abort 403, [])
   \<and> index (sample_env\<lparr>loads := \<lambda>body. Inl ValueError\<rparr>) sample_cfg ping_req
       = (Abort 400, [LogInfo ''just a ping'', LogException ''invalid payload'' ValueError])\<close>
proof -
  let ?env = "sample_env\<lparr>loads := \<lambda>body. Inl ValueError\<rparr>"
  have m: "req_method ping_req = ''POST''"
    by (simp add: ping_req_def sample_req_def)
  have a: "allow_github_ips sample_env sample_cfg ping_req = Inr ()"
    by (simp add: allow_github_ips_def config_get_def sample_world)
  have s: "enforce_secret sample_env sample_cfg ping_req = Inr ()"
    by (simp add: enforce_secret_def config_get_def compare_digest_def sample_world)
  have e: "get_event ping_req = ''ping''"
    by (simp add: get_event_def ping_req_def)
  have p: \<open>process_payload sample_env sample_cfg ping_req ''ping''
       = (Return ''{"all": {"returncode": 1, "stderr": "boom", "stdout": ""}}'',
          [Mkstemp ''/tmp/tmpk3x9q2'', WriteFile ''/tmp/tmpk3x9q2'' push_body,
           Popen [''/srv/webhooks/hooks/all'', ''/tmp/tmpk3x9q2'', ''ping''],
           LogHookFailed ''/srv/webhooks/hooks/all'' 1 ''boom'',
           RemoveFile ''/tmp/tmpk3x9q2'',
           LogInfo ''{"all": {"returncode": 1, "stderr": "boom", "stdout": ""}}''])\<close>
    by (simp add: handler_defs sample_world sample_text)
  have 1: \<open>index sample_env sample_cfg ping_req
       = (Return ''{"all": {"returncode": 1, "stderr": "boom", "stdout": ""}}'',
          [LogInfo ''just a ping'',
           Mkstemp ''/tmp/tmpk3x9q2'', WriteFile ''/tmp/tmpk3x9q2'' push_body,
           Popen [''/srv/webhooks/hooks/all'', ''/tmp/tmpk3x9q2'', ''ping''],
           LogHookFailed ''/srv/webhooks/hooks/all'' 1 ''boom'',
           RemoveFile ''/tmp/tmpk3x9q2'',
           LogInfo ''{"all": {"returncode": 1, "stderr": "boom", "stdout": ""}}''])\<close>
    using ping_not_short_circuited [OF m a s e, THEN conjunct1] by (simp add: p)
  have 2: "index sample_env sample_cfg (ping_req\<lparr>req_data := gitlab_body\<rparr>) = (Abort 403, [])"
    by (simp add: handler_defs sample_world)
  have a': "allow_github_ips ?env sample_cfg ping_req = Inr ()"
    by (simp add: allow_github_ips_def config_get_def sample_world)
  have s': "enforce_secret ?env sample_cfg ping_req = Inr ()"
    by (simp add: enforce_secret_def config_get_def compare_digest_def sample_world)
  have g': "gather_data ?env ping_req ''ping'' = Inl ValueError"
    by (simp add: gather_data_def)
  have 3: "index ?env sample_cfg ping_req
       = (Abort 400, [LogInfo ''just a ping'', LogException ''invalid payload'' ValueError])"
    using ping_not_short_circuited [OF m a' s' e, THEN conjunct2, THEN conjunct2,
        THEN conjunct1] g'
    by blast
  show ?thesis
    using e 1 2 3 by blast
qed

subsection \<open>The branch\<close>



subsection \<open>A missing signature header\<close>

text \<open>
  \<^bold>\<open>Claim C10.\<close> With a non-empty secret configured, a request that has reached the
  signature check and carries no signature header ends in an exception nothing catches:
  the \<open>AttributeError\<close> of \<^verbatim>\<open>None.split\<close>, not one of the statuses 403, 501 or 400.
\<close>

theorem missing_signature_raises:
  assumes "req_method req = ''POST''"
    and "allow_github_ips env cfg req = Inr ()"
    and "ENFORCE_SECRET cfg = Some secret" and "secret \<noteq> []"
    and "req_headers req ''X-Hub-Signature'' = None"
  shows "index env cfg req = (Raise AttributeError, [])"
  using assms
  by (simp add: index_allowed check_signature_def enforce_secret_def config_get_def)

text \<open>The sample request with the event header alone.\<close>

theorem missing_signature_raises_witness:
  "req_method sample_req = ''POST''
   \<and> ENFORCE_SECRET sample_cfg = Some ''s3cret''
   \<and> [''X-GitHub-Event'' \<mapsto> ''push''] ''X-Hub-Signature'' = None
   \<and> index sample_env sample_cfg
        (sample_req\<lparr>req_headers := [''X-GitHub-Event'' \<mapsto> ''push'']\<rparr>)
       = (Raise AttributeError, [])"
proof -
  have m: "req_method (sample_req\<lparr>req_headers := [''X-GitHub-Event'' \<mapsto> ''push'']\<rparr>)
       = ''POST''"
    by (simp add: sample_req_def)
  have a: "allow_github_ips sample_env sample_cfg
        (sample_req\<lparr>req_headers := [''X-GitHub-Event'' \<mapsto> ''push'']\<rparr>) = Inr ()"
    by (simp add: allow_github_ips_def config_get_def sample_env_def sample_cfg_def
          sample_req_def)
  have s: "ENFORCE_SECRET sample_cfg = Some ''s3cret''"
    by (simp add: sample_cfg_def)
  have h: "req_headers (sample_req\<lparr>req_headers := [''X-GitHub-Event'' \<mapsto> ''push'']\<rparr>)
       ''X-Hub-Signature'' = None"
    by simp
  show ?thesis
    using missing_signature_raises [OF m a s _ h] m s by (simp add: sample_req_def)
qed

section \<open>Further properties\<close>

text \<open>Every method other than POST is answered 501, after an error record.\<close>

theorem other_methods_rejected:
  assumes "req_method req \<noteq> ''POST''"
  shows "index env cfg req = (Abort 501, [LogError ''Someone is performing GET over /''])"
  using assms by (simp add: index_def)

text \<open>The sample request sent with GET.\<close>

theorem other_methods_rejected_witness:
  "req_method (sample_req\<lparr>req_method := ''GET''\<rparr>) \<noteq> ''POST''
   \<and> index sample_env sample_cfg (sample_req\<lparr>req_method := ''GET''\<rparr>)
       = (Abort 501, [LogError ''Someone is performing GET over /''])"
proof -
  have m: "req_method (sample_req\<lparr>req_method := ''GET''\<rparr>) \<noteq> ''POST''"
    by simp
  show ?thesis
    using other_methods_rejected [OF m] m by blast
qed

text \<open>With a secret configured, a signature header that does not hold exactly one \<^verbatim>\<open>=\<close>
  cannot be unpacked into its two parts: the \<open>ValueError\<close> is caught by nothing.\<close>

theorem malformed_signature_raises:
  assumes "req_method req = ''POST''"
    and "allow_github_ips env cfg req = Inr ()"
    and "ENFORCE_SECRET cfg = Some secret" and "secret \<noteq> []"
    and "req_headers req ''X-Hub-Signature'' = Some header"
    and "count_list header CHR ''='' \<noteq> 1"
  shows "index env cfg req = (Raise ValueError, [])"
proof -
  have "length (split_chr CHR ''='' header) \<noteq> 2"
    using assms(6) by (simp add: length_split_chr)
  then have "(case split_chr CHR ''='' header of
               [sha_name, signature] \<Rightarrow> f sha_name signature
             | _ \<Rightarrow> Inl (Raise ValueError)) = Inl (Raise ValueError)" for f :: "string \<Rightarrow> string \<Rightarrow> response + unit"
    by (auto split: list.splits)
  then show ?thesis
    using assms(1-5)
    by (simp add: index_allowed check_signature_def enforce_secret_def config_get_def)
qed

text \<open>The sample request with the bare digest as its signature header.\<close>

theorem malformed_signature_raises_witness:
  "count_list ''c417801017aa9172e8f2d4d870785253074e456b'' CHR ''='' \<noteq> 1
   \<and> index sample_env sample_cfg
        (sample_req\<lparr>req_headers :=
           [''X-Hub-Signature'' \<mapsto> ''c417801017aa9172e8f2d4d870785253074e456b'']\<rparr>)
       = (Raise ValueError, [])"
proof -
  let ?req = "sample_req\<lparr>req_headers :=
           [''X-Hub-Signature'' \<mapsto> ''c417801017aa9172e8f2d4d870785253074e456b'']\<rparr>"
  have m: "req_method ?req = ''POST''"
    by (simp add: sample_req_def)
  have a: "allow_github_ips sample_env sample_cfg ?req = Inr ()"
    by (simp add: allow_github_ips_def config_get_def sample_world)
  have s: "ENFORCE_SECRET sample_cfg = Some ''s3cret''"
    by (simp add: sample_cfg_def)
  have h: "req_headers ?req ''X-Hub-Signature''
      = Some ''c417801017aa9172e8f2d4d870785253074e456b''"
    by simp
  have c: "count_list ''c417801017aa9172e8f2d4d870785253074e456b'' CHR ''='' \<noteq> 1"
    by simp
  show ?thesis
    using malformed_signature_raises [OF m a s _ h c] c by simp
qed

text \<open>When the first child cannot be started, the exception of \<^verbatim>\<open>Popen\<close> leaves the
  handler after the temporary file has been written: the file is not removed.\<close>

theorem failed_launch_leaves_file:
  assumes "req_method req = ''POST''"
    and "allow_github_ips env cfg req = Inr ()"
    and "enforce_secret env cfg req = Inr ()"
    and "gather_data env req (get_event req) = Inr (payload, m)"
    and "runnable env (candidate_scripts env (join (app_path env) ''hooks'') m) = s # rest"
    and "popen env 0 [s, mkstemp env, get_event req] = Inl e"
  shows "index env cfg req =
     (Raise e,
      implement_ping (get_event req)
      @ [Mkstemp (mkstemp env), WriteFile (mkstemp env) (dumps env payload),
         Popen [s, mkstemp env, get_event req]])"
  using index_gathered [OF assms(1-4)] assms(5,6)
  by (simp add: run_hooks_def Let_def)

text \<open>The sample request in a world where no child starts.\<close>

theorem failed_launch_leaves_file_witness:
  "popen (sample_env\<lparr>popen := \<lambda>k argv. Inl OSError\<rparr>) 0
      [''/srv/webhooks/hooks/push-repo'', ''/tmp/tmpk3x9q2'', ''push''] = Inl OSError
   \<and> index (sample_env\<lparr>popen := \<lambda>k argv. Inl OSError\<rparr>) sample_cfg sample_req
       = (Raise OSError,
          [Mkstemp ''/tmp/tmpk3x9q2'', WriteFile ''/tmp/tmpk3x9q2'' push_body,
           Popen [''/srv/webhooks/hooks/push-repo'', ''/tmp/tmpk3x9q2'', ''push'']])"
proof -
  let ?env = "sample_env\<lparr>popen := \<lambda>k argv. Inl OSError\<rparr>"
  have a: "allow_github_ips ?env sample_cfg sample_req = Inr ()"
    by (simp add: allow_github_ips_def config_get_def sample_world)
  have s: "enforce_secret ?env sample_cfg sample_req = Inr ()"
    by (simp add: enforce_secret_def config_get_def compare_digest_def sample_world)
  have g: "gather_data ?env sample_req (get_event sample_req)
      = Inr (sample_payload, sample_meta)"
    by (simp add: get_event_def gather_data_def derive_branch_def subscript_def sample_world)
  have r: "runnable ?env (candidate_scripts ?env (join (app_path ?env) ''hooks'') sample_meta)
      = ''/srv/webhooks/hooks/push-repo'' # [''/srv/webhooks/hooks/all'']"
    by (simp add: runnable_def candidate_scripts_def candidate_names_def format_field_def
          join_def sample_world)
  have p: "popen ?env 0 [''/srv/webhooks/hooks/push-repo'', mkstemp ?env, get_event sample_req]
      = Inl OSError"
    by simp
  have t: "mkstemp sample_env = ''/tmp/tmpk3x9q2''"
    by (simp add: sample_env_def)
  show ?thesis
    using failed_launch_leaves_file [OF sample_post a s g r p]
    by (simp add: sample_event implement_ping_def sample_dumps_payload t)
qed

end
